theory Spec2Isabelle
  imports Main "HOL-Library.Sublist" "HOL-Library.Word"
begin

unbundle bit_operations_syntax

section \<open>Strings, errors and the catalog records\<close>

text \<open>
  A Go string is a sequence of bytes, and so is \<^typ>\<open>string\<close>: \<open>len\<close> is \<^const>\<open>length\<close>
  and a slice \<open>s[:n]\<close> is \<^const>\<open>take\<close>. Go's \<open>int\<close> is modelled by \<^typ>\<open>int\<close>: the code
  under study only compares sizes and adds or subtracts small constants to list lengths.
\<close>

abbreviation ESC :: char where "ESC \<equiv> CHR 0x1B"
abbreviation NL :: char where "NL \<equiv> CHR 0x0A"

text \<open>A Go \<open>error\<close> value, carrying the text that \<open>%v\<close> prints.\<close>

datatype error = Error (message: string)

text \<open>The records of package \<open>spotify\<close>, with the fields that the commands and the display read.\<close>

record Image =
  Image_URL :: string
  Image_Height :: int
  Image_Width :: int

record Artist =
  Artist_ID :: string
  Artist_Name :: string
  Artist_Images :: "Image list"
  Artist_Genres :: "string list"
  Artist_Popularity :: int
  Artist_Followers_Total :: int
  Artist_ExternalURL_Spotify :: string

text \<open>
  Go's \<open>Track\<close> and \<open>Album\<close> refer to each other. The display reads, of the tracks listed in
  an album, their name, duration and link only, and of a track's album no track list; so
  the tracks of an album are \<open>TrackItem\<close>s, and a \<open>Track\<close> is a \<open>TrackItem\<close> with its album.
\<close>

record TrackItem =
  Track_ID :: string
  Track_Name :: string
  Track_Artists :: "Artist list"
  Track_Duration :: int
  Track_Popularity :: int
  Track_TrackNumber :: int
  Track_Explicit :: bool
  Track_ExternalURL_Spotify :: string

record Album =
  Album_ID :: string
  Album_Name :: string
  Album_Artists :: "Artist list"
  Album_Images :: "Image list"
  Album_ReleaseDate :: string
  Album_TotalTracks :: int
  Album_Genres :: "string list"
  Album_Popularity :: int
  Album_AlbumType :: string
  Album_Label :: string
  Album_ExternalURL_Spotify :: string
  Album_Tracks_Items :: "TrackItem list"

record Track = TrackItem +
  Track_Album :: Album

record SearchResponse =
  Tracks_Items :: "Track list"
  Albums_Items :: "Album list"
  Artists_Items :: "Artist list"

record Config =
  SpotifyClientID :: string
  SpotifyClientSecret :: string

section \<open>The search command\<close>

text \<open>
  What the command does outside of itself is a parameter: the configuration store and the
  catalog client (each call answers with a value or an error).
\<close>

record env =
  HasCredentials :: bool
  GetConfig :: "error + Config"
  Search :: "string \<Rightarrow> string \<Rightarrow> error + SearchResponse"
  GetAlbum :: "string \<Rightarrow> error + Album"
  GetArtist :: "string \<Rightarrow> error + Artist"

text \<open>
  What a run of the command can be observed to do: the texts written to standard output, in
  order, and the calls of the three display functions with the image size they are given.
\<close>

datatype event =
    Print string
  | CallDisplayTrack Track int
  | CallDisplayAlbum Album int
  | CallDisplayArtist Artist int

text \<open>
  How a run ends: the function returns, or \<open>os.Exit\<close> ends the process at once with a status.
  \<open>os.Exit\<close> does not run the deferred calls of the functions it leaves.
\<close>

datatype outcome = Returned | Exited int

abbreviation hideCursor :: string where "hideCursor \<equiv> ESC # ''[?25l''"
abbreviation showCursor :: string where "showCursor \<equiv> ESC # ''[?25h''"

definition searchAuto :: "env \<Rightarrow> string \<Rightarrow> int \<Rightarrow> event list" where
  "searchAuto e query imageSize =
    (let notFound = [Print (''No results found for: '' @ query @ [NL])];
         tryArtist =
           (case Search e query ''artist'' of
              Inl err \<Rightarrow> notFound
            | Inr result \<Rightarrow>
                (case Artists_Items result of
                   [] \<Rightarrow> notFound
                 | a # _ \<Rightarrow>
                     (case GetArtist e (Artist_ID a) of
                        Inl err \<Rightarrow> notFound
                      | Inr artist \<Rightarrow> [CallDisplayArtist artist imageSize])));
         tryAlbum =
           (case Search e query ''album'' of
              Inl err \<Rightarrow> tryArtist
            | Inr result \<Rightarrow>
                (case Albums_Items result of
                   [] \<Rightarrow> tryArtist
                 | a # _ \<Rightarrow>
                     (case GetAlbum e (Album_ID a) of
                        Inl err \<Rightarrow> tryArtist
                      | Inr album \<Rightarrow> [CallDisplayAlbum album imageSize])))
     in case Search e query ''track'' of
          Inl err \<Rightarrow> tryAlbum
        | Inr result \<Rightarrow>
            (case Tracks_Items result of
               [] \<Rightarrow> tryAlbum
             | t # _ \<Rightarrow> [CallDisplayTrack t imageSize]))"

definition searchSpecific :: "env \<Rightarrow> string \<Rightarrow> string \<Rightarrow> int \<Rightarrow> event list \<times> outcome" where
  "searchSpecific e query sType imageSize =
    (case Search e query sType of
       Inl err \<Rightarrow> ([Print (''Search failed: '' @ message err @ [NL])], Exited 1)
     | Inr result \<Rightarrow>
         (if sType = ''track'' then
            (case Tracks_Items result of
               t # _ \<Rightarrow> [CallDisplayTrack t imageSize]
             | [] \<Rightarrow> [Print (''No tracks found for: '' @ query @ [NL])])
          else if sType = ''album'' then
            (case Albums_Items result of
               a # _ \<Rightarrow>
                 (case GetAlbum e (Album_ID a) of
                    Inr album \<Rightarrow> [CallDisplayAlbum album imageSize]
                  | Inl err \<Rightarrow> [Print (''Failed to get album details: '' @ message err @ [NL])])
             | [] \<Rightarrow> [Print (''No albums found for: '' @ query @ [NL])])
          else if sType = ''artist'' then
            (case Artists_Items result of
               a # _ \<Rightarrow>
                 (case GetArtist e (Artist_ID a) of
                    Inr artist \<Rightarrow> [CallDisplayArtist artist imageSize]
                  | Inl err \<Rightarrow> [Print (''Failed to get artist details: '' @ message err @ [NL])])
             | [] \<Rightarrow> [Print (''No artists found for: '' @ query @ [NL])])
          else [],
          Returned))"

text \<open>The two \<open>if\<close> statements under the comment "Validate image size".\<close>

definition validateImageSize :: "int \<Rightarrow> int" where
  "validateImageSize imageSize =
    (let imageSize = (if imageSize < 15 then 15 else imageSize);
         imageSize = (if imageSize > 35 then 35 else imageSize)
     in imageSize)"

text \<open>
  The \<open>Run\<close> function of \<open>searchCmd\<close>. The deferred \<open>fmt.Print\<close> of the cursor-restore
  sequence runs when \<open>Run\<close> returns, and only then.
\<close>

definition searchCmd_Run :: "env \<Rightarrow> string \<Rightarrow> string \<Rightarrow> int \<Rightarrow> event list \<times> outcome" where
  "searchCmd_Run e query searchType imageSize =
    (if \<not> HasCredentials e then
       ([Print (''No Spotify credentials found!'' @ [NL]),
         Print (''Run 'mufetch auth' to set up your API credentials.'' @ [NL])], Exited 1)
     else case GetConfig e of
       Inl err \<Rightarrow> ([Print (''Failed to load config: '' @ message err @ [NL])], Exited 1)
     | Inr cfg \<Rightarrow>
         (let deferred = [Print showCursor];
              imageSize = validateImageSize imageSize;
              (out, oc) =
                (if searchType = ''auto'' then (searchAuto e query imageSize, Returned)
                 else searchSpecific e query searchType imageSize)
          in case oc of
               Exited status \<Rightarrow> ([Print hideCursor, Print [NL]] @ out, Exited status)
             | Returned \<Rightarrow>
                 ([Print hideCursor, Print [NL]] @ out
                    @ [Print (ESC # ''[F'' @ ESC # ''[K'' @ [NL])] @ deferred, Returned)))"

text \<open>The image size that a display call of a run was given.\<close>

fun displaySize :: "event \<Rightarrow> int option" where
  "displaySize (Print s) = None"
| "displaySize (CallDisplayTrack t n) = Some n"
| "displaySize (CallDisplayAlbum a n) = Some n"
| "displaySize (CallDisplayArtist a n) = Some n"

section \<open>The image renderer\<close>

text \<open>
  \<open>fmt\<close>'s \<open>%d\<close>: the decimal digits of a number, with a minus sign when it is negative.
\<close>

fun itoa :: "nat \<Rightarrow> string" where
  "itoa n = (if n < 10 then [''0123456789'' ! n] else itoa (n div 10) @ [''0123456789'' ! (n mod 10)])"

declare itoa.simps [simp del]

definition Sprintf_d :: "int \<Rightarrow> string" where
  "Sprintf_d i = (if i < 0 then CHR ''-'' # itoa (nat (- i)) else itoa (nat i))"

text \<open>
  An \<open>image.Image\<close>: its bounds and, for each point, the four 32-bit channels that
  \<open>At(x, y).RGBA()\<close> returns.
\<close>

type_synonym RGBA = "32 word \<times> 32 word \<times> 32 word \<times> 32 word"

record GoImage =
  Min_X :: int
  Min_Y :: int
  Max_X :: int
  Max_Y :: int
  At_RGBA :: "int \<Rightarrow> int \<Rightarrow> RGBA"

text \<open>
  The libraries that the display calls are parameters: \<open>http.Get\<close> (answering with the body),
  \<open>image.Decode\<close>, \<open>imaging.Resize\<close> with the Lanczos filter, and \<open>strings.ToLower\<close>.
\<close>

record lib =
  http_Get :: "string \<Rightarrow> error + string"
  image_Decode :: "string \<Rightarrow> error + GoImage"
  imaging_Resize :: "GoImage \<Rightarrow> int \<Rightarrow> int \<Rightarrow> GoImage"
  strings_ToLower :: "string \<Rightarrow> string"

abbreviation ColorReset :: string where "ColorReset \<equiv> ESC # ''[0m''"
abbreviation ColorRed :: string where "ColorRed \<equiv> ESC # ''[31m''"
abbreviation ColorGreen :: string where "ColorGreen \<equiv> ESC # ''[32m''"
abbreviation ColorYellow :: string where "ColorYellow \<equiv> ESC # ''[33m''"
abbreviation ColorBlue :: string where "ColorBlue \<equiv> ESC # ''[34m''"
abbreviation ColorPurple :: string where "ColorPurple \<equiv> ESC # ''[35m''"
abbreviation ColorCyan :: string where "ColorCyan \<equiv> ESC # ''[36m''"
abbreviation ColorWhite :: string where "ColorWhite \<equiv> ESC # ''[37m''"
abbreviation ColorBold :: string where "ColorBold \<equiv> ESC # ''[1m''"

record ImageRenderer =
  width :: int
  height :: int

definition NewImageRenderer :: "int \<Rightarrow> ImageRenderer" where
  "NewImageRenderer sz = \<lparr>width = sz, height = sz\<rparr>"

definition downloadImage :: "lib \<Rightarrow> string \<Rightarrow> error + GoImage" where
  "downloadImage l url =
    (case http_Get l url of
       Inl err \<Rightarrow> Inl err
     | Inr body \<Rightarrow> image_Decode l body)"

text \<open>One cell: the 8-bit channels, the true-color background sequence, two spaces, the reset.\<close>

definition blockCell :: "RGBA \<Rightarrow> string" where
  "blockCell pixelColor =
    (case pixelColor of (r8, g8, b8, a8) \<Rightarrow>
       (let r = (ucast (drop_bit 8 r8) :: 8 word);
            g = (ucast (drop_bit 8 g8) :: 8 word);
            b = (ucast (drop_bit 8 b8) :: 8 word)
        in ESC # ''[48;2;'' @ itoa (unat r) @ '';'' @ itoa (unat g) @ '';'' @ itoa (unat b)
             @ ''m  '' @ ESC # ''[0m''))"

text \<open>The inner loop over \<open>x\<close> and the outer loop over \<open>y\<close> of \<open>getBlockArtLines\<close>.\<close>

function blockArtRow :: "GoImage \<Rightarrow> int \<Rightarrow> int \<Rightarrow> string \<Rightarrow> string" where
  "blockArtRow resized y x line =
    (if x < Max_X resized
     then blockArtRow resized y (x + 1) (line @ blockCell (At_RGBA resized x y))
     else line)"
  by pat_completeness auto
termination
  by (relation "measure (\<lambda>(resized, y, x, line). nat (Max_X resized - x))") auto

declare blockArtRow.simps [simp del]

function blockArtRows :: "GoImage \<Rightarrow> int \<Rightarrow> string list \<Rightarrow> string list" where
  "blockArtRows resized y lines =
    (if y < Max_Y resized
     then blockArtRows resized (y + 1) (lines @ [blockArtRow resized y (Min_X resized) '' ''])
     else lines)"
  by pat_completeness auto
termination
  by (relation "measure (\<lambda>(resized, y, lines). nat (Max_Y resized - y))") auto

declare blockArtRows.simps [simp del]

definition getBlockArtLines :: "lib \<Rightarrow> ImageRenderer \<Rightarrow> GoImage \<Rightarrow> string list" where
  "getBlockArtLines l r img =
    (let resized = imaging_Resize l img (width r) (height r)
     in blockArtRows resized (Min_Y resized) [])"

text \<open>The box-drawing characters of the placeholder, as the UTF-8 bytes of the source file.\<close>

abbreviation box_down_right :: string where "box_down_right \<equiv> [CHR 0xE2, CHR 0x94, CHR 0x8C]"
abbreviation box_down_left :: string where "box_down_left \<equiv> [CHR 0xE2, CHR 0x94, CHR 0x90]"
abbreviation box_up_right :: string where "box_up_right \<equiv> [CHR 0xE2, CHR 0x94, CHR 0x94]"
abbreviation box_up_left :: string where "box_up_left \<equiv> [CHR 0xE2, CHR 0x94, CHR 0x98]"
abbreviation box_horizontal :: string where "box_horizontal \<equiv> [CHR 0xE2, CHR 0x94, CHR 0x80]"
abbreviation box_vertical :: string where "box_vertical \<equiv> [CHR 0xE2, CHR 0x94, CHR 0x82]"

text \<open>The eight lines of the literal that \<open>getPlaceholderLines\<close> starts from.\<close>

definition placeholderBox :: "string list" where
  "placeholderBox =
    ['' '' @ ColorWhite @ box_down_right @ concat (replicate 31 box_horizontal) @ box_down_left @ ColorReset,
     '' '' @ ColorWhite @ box_vertical @ ''                               '' @ box_vertical @ ColorReset,
     '' '' @ ColorWhite @ box_vertical @ ''                               '' @ box_vertical @ ColorReset,
     '' '' @ ColorWhite @ box_vertical @ ''           NO IMAGE            '' @ box_vertical @ ColorReset,
     '' '' @ ColorWhite @ box_vertical @ ''           AVAILABLE           '' @ box_vertical @ ColorReset,
     '' '' @ ColorWhite @ box_vertical @ ''                               '' @ box_vertical @ ColorReset,
     '' '' @ ColorWhite @ box_vertical @ ''                               '' @ box_vertical @ ColorReset,
     '' '' @ ColorWhite @ box_up_right @ concat (replicate 31 box_horizontal) @ box_up_left @ ColorReset]"

text \<open>The loop under "Pad to match image height".\<close>

function padPlaceholder :: "string list \<Rightarrow> string list" where
  "padPlaceholder lines =
    (if length lines < 20
     then padPlaceholder (lines @ [replicate 31 CHR '' ''])
     else lines)"
  by pat_completeness auto
termination
  by (relation "measure (\<lambda>lines. 20 - length lines)") auto

declare padPlaceholder.simps [simp del]

definition getPlaceholderLines :: "ImageRenderer \<Rightarrow> string list" where
  "getPlaceholderLines r = padPlaceholder placeholderBox"

definition RenderImageLines :: "lib \<Rightarrow> ImageRenderer \<Rightarrow> string \<Rightarrow> string list" where
  "RenderImageLines l r imageURL =
    (if imageURL = [] then getPlaceholderLines r
     else case downloadImage l imageURL of
       Inl err \<Rightarrow> getPlaceholderLines r
     | Inr img \<Rightarrow> getBlockArtLines l r img)"

subsection \<open>Rendered width\<close>

text \<open>
  The width of a line as a terminal renders it: the number of characters outside escape
  sequences. A control sequence is \<open>ESC [\<close> up to its final byte (0x40 to 0x7E); an
  operating-system command, which carries the hyperlinks, is \<open>ESC ]\<close> up to \<open>BEL\<close> or
  \<open>ESC \\<close>. A character is one UTF-8 sequence, so continuation bytes (0x80 to 0xBF) do
  not count.
\<close>

datatype scan_mode = Text | Escape | Control | Command | CommandEscape

fun scanStep :: "scan_mode \<Rightarrow> char \<Rightarrow> scan_mode" where
  "scanStep Text c = (if c = ESC then Escape else Text)"
| "scanStep Escape c =
    (if c = CHR ''['' then Control else if c = CHR '']'' then Command else Text)"
| "scanStep Control c =
    (if 0x40 \<le> (of_char c :: nat) \<and> (of_char c :: nat) \<le> 0x7E then Text else Control)"
| "scanStep Command c =
    (if c = CHR 0x07 then Text else if c = ESC then CommandEscape else Command)"
| "scanStep CommandEscape c = (if c = CHR 0x5C then Text else Command)"

definition visibleChar :: "scan_mode \<Rightarrow> char \<Rightarrow> nat" where
  "visibleChar m c =
    (if m = Text \<and> c \<noteq> ESC \<and> \<not> (0x80 \<le> (of_char c :: nat) \<and> (of_char c :: nat) < 0xC0)
     then 1 else 0)"

fun scanWidth :: "scan_mode \<Rightarrow> string \<Rightarrow> nat" where
  "scanWidth m [] = 0"
| "scanWidth m (c # cs) = visibleChar m c + scanWidth (scanStep m c) cs"

definition visibleWidth :: "string \<Rightarrow> nat" where
  "visibleWidth s = scanWidth Text s"

section \<open>The side-by-side layout\<close>

text \<open>
  Indexing a slice panics outside of its range; the panic is a value of the model. A function
  that prints returns the texts it has written, one per call of \<open>fmt.Printf\<close>, and the panic
  that ended it, if any.
\<close>

datatype panic = IndexOutOfRange int nat

definition index :: "'a list \<Rightarrow> int \<Rightarrow> panic + 'a" where
  "index xs i =
    (if 0 \<le> i \<and> i < int (length xs) then Inr (xs ! nat i)
     else Inl (IndexOutOfRange i (length xs)))"

text \<open>\<open>strings.Contains\<close>: some suffix of \<open>s\<close> starts with \<open>substr\<close>.\<close>

fun Contains :: "string \<Rightarrow> string \<Rightarrow> bool" where
  "Contains [] substr = (substr = [])"
| "Contains (c # cs) substr = (prefix substr (c # cs) \<or> Contains cs substr)"

text \<open>Lines 748 to 754: the number of lines that carry info text.\<close>

definition targetLinesOf :: "string list \<Rightarrow> string list \<Rightarrow> int" where
  "targetLinesOf imageLines infoLines =
    (let maxLines = int (length imageLines);
         maxLines = (if int (length infoLines) > maxLines then int (length infoLines) else maxLines)
     in maxLines - 2)"

text \<open>The loop under "Pad info lines to match image height minus 2 for link placement".\<close>

function padInfoLines :: "string list \<Rightarrow> int \<Rightarrow> string list" where
  "padInfoLines infoLines targetLines =
    (if int (length infoLines) < targetLines
     then padInfoLines (infoLines @ [[]]) targetLines
     else infoLines)"
  by pat_completeness auto
termination
  by (relation "measure (\<lambda>(infoLines, targetLines). nat (targetLines - int (length infoLines)))") auto

declare padInfoLines.simps [simp del]

text \<open>The body and the loop of "Display main content side by side".\<close>

definition contentLine :: "string list \<Rightarrow> string list \<Rightarrow> int \<Rightarrow> panic + string" where
  "contentLine imageLines infoLines i =
    (if i < int (length imageLines) then
       (case index imageLines i of
          Inl p \<Rightarrow> Inl p
        | Inr imageLine \<Rightarrow>
            (case index infoLines i of
               Inl p \<Rightarrow> Inl p
             | Inr infoLine \<Rightarrow> Inr (imageLine @ ''   '' @ infoLine @ [NL])))
     else
       (case index infoLines i of
          Inl p \<Rightarrow> Inl p
        | Inr infoLine \<Rightarrow> Inr (replicate 46 CHR '' '' @ ''   '' @ infoLine @ [NL])))"

function mainContent ::
  "string list \<Rightarrow> string list \<Rightarrow> int \<Rightarrow> int \<Rightarrow> string list \<Rightarrow> string list \<times> panic option" where
  "mainContent imageLines infoLines targetLines i out =
    (if i < targetLines then
       (case contentLine imageLines infoLines i of
          Inl p \<Rightarrow> (out, Some p)
        | Inr line \<Rightarrow> mainContent imageLines infoLines targetLines (i + 1) (out @ [line]))
     else (out, None))"
  by pat_completeness auto
termination
  by (relation "measure (\<lambda>(imageLines, infoLines, targetLines, i, out). nat (targetLines - i))") auto

declare mainContent.simps [simp del]

text \<open>The two loops "Display remaining image lines": from \<open>i\<close> to the last image line.\<close>

function remainingImageLines :: "string list \<Rightarrow> int \<Rightarrow> string list \<Rightarrow> string list \<times> panic option" where
  "remainingImageLines imageLines i out =
    (if i < int (length imageLines) then
       (case index imageLines i of
          Inl p \<Rightarrow> (out, Some p)
        | Inr imageLine \<Rightarrow> remainingImageLines imageLines (i + 1) (out @ [imageLine @ ''   '' @ [NL]]))
     else (out, None))"
  by pat_completeness auto
termination
  by (relation "measure (\<lambda>(imageLines, i, out). nat (int (length imageLines) - i))") auto

declare remainingImageLines.simps [simp del]

text \<open>"Separate Spotify and image links for consistent ordering": the loop over the links.\<close>

fun separateLinks :: "lib \<Rightarrow> string list \<Rightarrow> string \<times> string \<Rightarrow> string \<times> string" where
  "separateLinks l [] (spotifyLink, imageLink) = (spotifyLink, imageLink)"
| "separateLinks l (link # links) (spotifyLink, imageLink) =
    (if Contains (strings_ToLower l link) ''spotify''
     then separateLinks l links (link, imageLink)
     else separateLinks l links (spotifyLink, link))"

definition linkLineOf :: "lib \<Rightarrow> string list \<Rightarrow> string" where
  "linkLineOf l links =
    (case separateLinks l links ([], []) of (spotifyLink, imageLink) \<Rightarrow>
       (let spotifyLink = (if spotifyLink = [] \<and> length links > 0 then links ! 0 else spotifyLink);
            imageLink = (if imageLink = [] \<and> length links > 1 then links ! 1 else imageLink)
        in if spotifyLink \<noteq> [] \<and> imageLink \<noteq> [] then spotifyLink @ ''   '' @ imageLink
           else if spotifyLink \<noteq> [] then spotifyLink
           else imageLink))"

definition displaySideBySideWithLinks ::
  "lib \<Rightarrow> string list \<Rightarrow> string list \<Rightarrow> string list \<Rightarrow> string list \<times> panic option" where
  "displaySideBySideWithLinks l imageLines infoLines links =
    (let targetLines = targetLinesOf imageLines infoLines;
         infoLines = padInfoLines infoLines targetLines
     in case mainContent imageLines infoLines targetLines 0 [] of
          (out, Some p) \<Rightarrow> (out, Some p)
        | (out, None) \<Rightarrow>
            (if length links > 0 then
               (case (if targetLines < int (length imageLines) then index imageLines targetLines
                      else Inr (replicate 46 CHR '' '')) of
                  Inl p \<Rightarrow> (out, Some p)
                | Inr imageLine \<Rightarrow>
                    remainingImageLines imageLines (targetLines + 1)
                      (out @ [imageLine @ ''   '' @ linkLineOf l links @ [NL]]))
             else remainingImageLines imageLines targetLines out))"

subsection \<open>The rows of the layout, for the statements below\<close>

text \<open>
  Row \<open>k\<close> of the main content: image line \<open>k\<close>, or 46 spaces once the image lines have run
  out, then the gap of three spaces, then info line \<open>k\<close>.
\<close>

definition contentRow :: "string list \<Rightarrow> string list \<Rightarrow> nat \<Rightarrow> string" where
  "contentRow imageLines infoLines k =
    (if k < length imageLines then imageLines ! k else replicate 46 CHR '' '')
      @ ''   '' @ infoLines ! k @ [NL]"

text \<open>An image line printed with the gap and no info text.\<close>

definition imageRow :: "string list \<Rightarrow> nat \<Rightarrow> string" where
  "imageRow imageLines k = imageLines ! k @ ''   '' @ [NL]"

text \<open>
  What follows the main content when it has \<open>t\<close> rows: the link row and the image lines after
  it, or, without links, the image lines from \<open>t\<close> on.
\<close>

definition bottomRows :: "lib \<Rightarrow> string list \<Rightarrow> string list \<Rightarrow> nat \<Rightarrow> string list" where
  "bottomRows l imageLines links t =
    (if links \<noteq> [] then
       ((if t < length imageLines then imageLines ! t else replicate 46 CHR '' '')
          @ ''   '' @ linkLineOf l links @ [NL])
         # map (imageRow imageLines) [Suc t..<length imageLines]
     else map (imageRow imageLines) [t..<length imageLines])"

section \<open>The info panel\<close>

definition createClickableLink :: "string \<Rightarrow> string \<Rightarrow> string" where
  "createClickableLink url text =
    ESC # '']8;;'' @ url @ [ESC, CHR 0x5C] @ text @ ESC # '']8;;'' @ [ESC, CHR 0x5C]"

definition formatInfoLine :: "string \<Rightarrow> string \<Rightarrow> string \<Rightarrow> string" where
  "formatInfoLine label val color =
    (let minPadding = 2;
         maxLabelWidth = 12;
         labelWidth = int (length label);
         padding = maxLabelWidth - labelWidth + minPadding;
         padding = (if padding < minPadding then minPadding else padding)
     in ColorBold @ label @ ColorReset @ replicate (nat padding) CHR '' '' @ color @ val @ ColorReset)"

definition formatBool :: "bool \<Rightarrow> string" where
  "formatBool b = (if b then ''Yes'' else ''No'')"


text \<open>\<open>strings.Join\<close>.\<close>

fun Join :: "string list \<Rightarrow> string \<Rightarrow> string" where
  "Join [] sep = []"
| "Join [x] sep = x"
| "Join (x # y # ys) sep = x @ sep @ Join (y # ys) sep"

subsection \<open>Dates\<close>

text \<open>
  \<open>time.Parse\<close> of the standard library, for the two layouts that \<open>formatOrdinalDate\<close> uses.
  The layout element \<open>2006\<close> takes exactly four digits, \<open>01\<close> and \<open>02\<close> take exactly two,
  a dash of the layout takes a dash, and nothing may be left over. The month must be from
  1 to 12 and the day must exist in that month of that year.
\<close>

definition isDigit :: "char \<Rightarrow> bool" where
  "isDigit c = (48 \<le> (of_char c :: nat) \<and> (of_char c :: nat) \<le> 57)"

definition digitValue :: "char \<Rightarrow> nat" where
  "digitValue c = of_char c - 48"

definition parseLongYear :: "string \<Rightarrow> (nat \<times> string) option" where
  "parseLongYear v =
    (if length v < 4 \<or> \<not> list_all isDigit (take 4 v) then None
     else Some (digitValue (v ! 0) * 1000 + digitValue (v ! 1) * 100
                  + digitValue (v ! 2) * 10 + digitValue (v ! 3), drop 4 v))"

definition getnum2 :: "string \<Rightarrow> (nat \<times> string) option" where
  "getnum2 v =
    (if length v < 2 \<or> \<not> isDigit (v ! 0) \<or> \<not> isDigit (v ! 1) then None
     else Some (digitValue (v ! 0) * 10 + digitValue (v ! 1), drop 2 v))"

definition skipDash :: "string \<Rightarrow> string option" where
  "skipDash v = (case v of [] \<Rightarrow> None | c # rest \<Rightarrow> if c = CHR ''-'' then Some rest else None)"

definition isLeap :: "nat \<Rightarrow> bool" where
  "isLeap year = (year mod 4 = 0 \<and> (year mod 100 \<noteq> 0 \<or> year mod 400 = 0))"

definition daysIn :: "nat \<Rightarrow> nat \<Rightarrow> nat" where
  "daysIn month year =
    (if month = 2 then (if isLeap year then 29 else 28)
     else if month = 4 \<or> month = 6 \<or> month = 9 \<or> month = 11 then 30
     else 31)"

text \<open>\<open>time.Parse("2006-01-02", v)\<close>: the year, the month and the day, or no result.\<close>

definition time_Parse_date :: "string \<Rightarrow> (nat \<times> nat \<times> nat) option" where
  "time_Parse_date v =
    (case parseLongYear v of
       None \<Rightarrow> None
     | Some (year, v1) \<Rightarrow>
    (case skipDash v1 of
       None \<Rightarrow> None
     | Some v2 \<Rightarrow>
    (case getnum2 v2 of
       None \<Rightarrow> None
     | Some (month, v3) \<Rightarrow>
         if month \<le> 0 \<or> 12 < month then None
         else
    (case skipDash v3 of
       None \<Rightarrow> None
     | Some v4 \<Rightarrow>
    (case getnum2 v4 of
       None \<Rightarrow> None
     | Some (day, v5) \<Rightarrow>
         if v5 \<noteq> [] then None
         else if day < 1 \<or> day > daysIn month year then None
         else Some (year, month, day))))))"

text \<open>\<open>time.Parse("2006", v)\<close>: the year, or no result.\<close>

definition time_Parse_year :: "string \<Rightarrow> nat option" where
  "time_Parse_year v =
    (case parseLongYear v of
       None \<Rightarrow> None
     | Some (year, v1) \<Rightarrow> if v1 \<noteq> [] then None else Some year)"

text \<open>\<open>t.Format("2006")\<close>: the year on four digits; \<open>t.Format("Jan")\<close>: the short month name.\<close>

definition Format_year :: "nat \<Rightarrow> string" where
  "Format_year year = replicate (4 - length (itoa year)) CHR ''0'' @ itoa year"

definition Format_Jan :: "nat \<Rightarrow> string" where
  "Format_Jan month =
    [''Jan'', ''Feb'', ''Mar'', ''Apr'', ''May'', ''Jun'',
     ''Jul'', ''Aug'', ''Sep'', ''Oct'', ''Nov'', ''Dec''] ! (month - 1)"

definition formatOrdinalDate :: "string \<Rightarrow> string" where
  "formatOrdinalDate dateStr =
    (if dateStr = [] then ''N/A''
     else case time_Parse_date dateStr of
       None \<Rightarrow>
         (case time_Parse_year dateStr of
            None \<Rightarrow> dateStr
          | Some year \<Rightarrow> Format_year year)
     | Some (year, month, day) \<Rightarrow>
         (let suffix =
            (if day \<ge> 11 \<and> day \<le> 13 then ''th''
             else if day mod 10 = 1 then ''st''
             else if day mod 10 = 2 then ''nd''
             else if day mod 10 = 3 then ''rd''
             else ''th'')
          in Sprintf_d (int day) @ suffix @ '' '' @ Format_Jan month @ '' '' @ Sprintf_d (int year)))"

subsection \<open>Genres\<close>

text \<open>
  The catalog client as the display sees it: a pointer that may be nil, and its
  \<open>GetArtist\<close>.
\<close>

record Client =
  Client_GetArtist :: "string \<Rightarrow> error + Artist"

text \<open>
  "Get genres from album or fallback to artist genres", as \<open>DisplayTrack\<close> and
  \<open>DisplayAlbum\<close> both do it, from the record's own genres and its artists.
\<close>

definition genresOrFallback :: "string list \<Rightarrow> Artist list \<Rightarrow> Client option \<Rightarrow> string list" where
  "genresOrFallback genres artists client =
    (case client of
       None \<Rightarrow> genres
     | Some c \<Rightarrow>
         if length genres = 0 \<and> length artists > 0 then
           (case Client_GetArtist c (Artist_ID (artists ! 0)) of
              Inr artist \<Rightarrow> Artist_Genres artist
            | Inl err \<Rightarrow> genres)
         else genres)"

text \<open>The genre text of the panel: joined, and cut to 47 bytes and three dots when over 50.\<close>

definition genreStringOf :: "string list \<Rightarrow> string" where
  "genreStringOf genres =
    (let genreString = Join genres '', ''
     in if length genreString > 50 then take 47 genreString @ ''...'' else genreString)"

definition appendGenres :: "string list \<Rightarrow> string list \<Rightarrow> string list" where
  "appendGenres infoLines genres =
    (if length genres > 0
     then infoLines @ [formatInfoLine ''Genres'' (genreStringOf genres) ColorRed]
     else infoLines)"

subsection \<open>The panels of a track and of an album\<close>

text \<open>
  \<open>formatDuration\<close> computes minutes and seconds in floating point; it is a parameter here,
  from a duration in milliseconds to its text.
\<close>

definition artistLinks :: "Artist list \<Rightarrow> string list" where
  "artistLinks artists =
    map (\<lambda>artist. createClickableLink (Artist_ExternalURL_Spotify artist) (Artist_Name artist)) artists"

definition DisplayTrack_infoLines :: "(int \<Rightarrow> string) \<Rightarrow> Track \<Rightarrow> Client option \<Rightarrow> string list" where
  "DisplayTrack_infoLines formatDuration track client =
    (let artistNames = artistLinks (Track_Artists track);
         genres = genresOrFallback (Album_Genres (Track_Album track)) (Track_Artists track) client;
         albumName = createClickableLink (Album_ExternalURL_Spotify (Track_Album track))
                       (Album_Name (Track_Album track));
         infoLines =
           [formatInfoLine ''Name'' (Track_Name track) ColorGreen,
            formatInfoLine ''Artist'' (Join artistNames '', '') ColorYellow,
            formatInfoLine ''Album'' albumName ColorBlue,
            formatInfoLine ''Duration'' (formatDuration (Track_Duration track)) ColorWhite,
            formatInfoLine ''Track'' (Sprintf_d (Track_TrackNumber track)) ColorCyan,
            formatInfoLine ''Explicit'' (formatBool (Track_Explicit track)) ColorRed,
            formatInfoLine ''Released'' (formatOrdinalDate (Album_ReleaseDate (Track_Album track))) ColorCyan,
            formatInfoLine ''Popularity'' (Sprintf_d (Track_Popularity track) @ ''%'') ColorPurple]
     in appendGenres infoLines genres)"



text \<open>The image lines and the links at the bottom, from the images of the album.\<close>

definition coverLines :: "lib \<Rightarrow> Image list \<Rightarrow> int \<Rightarrow> string list" where
  "coverLines l images imageSize =
    (let renderer = NewImageRenderer imageSize
     in if length images > 0 then RenderImageLines l renderer (Image_URL (images ! 0))
        else getPlaceholderLines renderer)"

definition coverLinks :: "Image list \<Rightarrow> string \<Rightarrow> string list" where
  "coverLinks images spotifyURL =
    (if length images > 0
     then [ColorBlue @ createClickableLink (Image_URL (images ! 0)) ''Album Cover'' @ ColorReset]
     else [])
    @ [ColorGreen @ createClickableLink spotifyURL ''Spotify'' @ ColorReset]"

definition DisplayTrack ::
  "lib \<Rightarrow> (int \<Rightarrow> string) \<Rightarrow> Track \<Rightarrow> Client option \<Rightarrow> int \<Rightarrow> string list \<times> panic option" where
  "DisplayTrack l formatDuration track client imageSize =
    displaySideBySideWithLinks l
      (coverLines l (Album_Images (Track_Album track)) imageSize)
      (DisplayTrack_infoLines formatDuration track client)
      (coverLinks (Album_Images (Track_Album track)) (Track_ExternalURL_Spotify track))"


section \<open>Sample inputs\<close>

text \<open>Concrete records and environments at which the theorems below are instantiated.\<close>

definition track0 :: Track where
  "track0 = \<lparr>Track_ID = ''t1'', Track_Name = ''Song'', Track_Artists = [], Track_Duration = 125000,
     Track_Popularity = 50, Track_TrackNumber = 1, Track_Explicit = False,
     Track_ExternalURL_Spotify = ''https://open.spotify.com/track/t1'',
     Track_Album = \<lparr>Album_ID = ''a1'', Album_Name = ''LP'', Album_Artists = [], Album_Images = [],
       Album_ReleaseDate = ''2020-01-22'', Album_TotalTracks = 1, Album_Genres = [],
       Album_Popularity = 40, Album_AlbumType = ''album'', Album_Label = [],
       Album_ExternalURL_Spotify = ''https://open.spotify.com/album/a1'',
       Album_Tracks_Items = []\<rparr>\<rparr>"

definition env_ok :: env where
  "env_ok = \<lparr>HasCredentials = True,
     GetConfig = Inr \<lparr>SpotifyClientID = ''id'', SpotifyClientSecret = ''secret''\<rparr>,
     Search = (\<lambda>q t. Inr \<lparr>Tracks_Items = [track0], Albums_Items = [], Artists_Items = []\<rparr>),
     GetAlbum = (\<lambda>i. Inl (Error ''404 Not Found'')),
     GetArtist = (\<lambda>i. Inl (Error ''404 Not Found''))\<rparr>"

definition env_down :: env where
  "env_down = env_ok\<lparr>Search := (\<lambda>q t. Inl (Error ''connection refused''))\<rparr>"


definition img0 :: GoImage where
  "img0 = \<lparr>Min_X = 0, Min_Y = 0, Max_X = 640, Max_Y = 640,
     At_RGBA = (\<lambda>x y. (0xFFFF, 0x8080, 0, 0xFFFF))\<rparr>"

text \<open>
  A library whose one reachable image is \<open>img0\<close> and whose resize gives every point the colour
  of the source's first point.
\<close>

definition lib0 :: lib where
  "lib0 = \<lparr>http_Get = (\<lambda>url. if url = ''https://i.scdn.co/image/cover''
                                then Inr ''JFIF'' else Inl (Error ''no such host'')),
     image_Decode = (\<lambda>body. if body = ''JFIF'' then Inr img0
                                else Inl (Error ''image: unknown format'')),
     imaging_Resize = (\<lambda>img w h. \<lparr>Min_X = 0, Min_Y = 0, Max_X = w, Max_Y = h,
                         At_RGBA = (\<lambda>x y. At_RGBA img (Min_X img) (Min_Y img))\<rparr>),
     strings_ToLower = map (\<lambda>c. if 65 \<le> (of_char c :: nat) \<and> (of_char c :: nat) \<le> 90
                                     then char_of (of_char c + (32::nat)) else c)\<rparr>"


definition image3 :: "string list" where
  "image3 = [''AAA'', ''BBB'', ''CCC'']"

definition info6 :: "string list" where
  "info6 = [''one'', ''two'', ''three'', ''four'', ''five'', ''six'']"







section \<open>Properties of the search command\<close>

lemma validate_eq: "validateImageSize n = (if n < 15 then 15 else if n > 35 then 35 else n)"
  by (simp add: validateImageSize_def)

lemma validate_idem: "validateImageSize (validateImageSize n) = validateImageSize n"
  by (simp add: validateImageSize_def)

lemma searchAuto_sizes: "ev \<in> set (searchAuto e q n) \<Longrightarrow> displaySize ev = Some k \<Longrightarrow> k = n"
  by (auto simp: searchAuto_def Let_def split: sum.splits list.splits)

lemma searchSpecific_sizes: "ev \<in> set (fst (searchSpecific e q t n)) \<Longrightarrow> displaySize ev = Some k \<Longrightarrow> k = n"
  by (auto simp: searchSpecific_def Let_def split: sum.splits list.splits if_splits)

lemma run_events:
  "ev \<in> set (fst (searchCmd_Run e q t n)) \<Longrightarrow>
     (\<exists>s. ev = Print s) \<or> ev \<in> set (searchAuto e q (validateImageSize n))
       \<or> ev \<in> set (fst (searchSpecific e q t (validateImageSize n)))"
  by (auto simp: searchCmd_Run_def Let_def split: sum.splits if_splits prod.splits outcome.splits)

lemma run_sizes:
  assumes "ev \<in> set (fst (searchCmd_Run e q t n))" and "displaySize ev = Some k"
  shows "k = validateImageSize n"
  using run_events[OF assms(1)] assms(2) searchAuto_sizes searchSpecific_sizes by fastforce


text \<open>
  C8. Whatever image size \<open>n\<close> is requested, the size used is \<open>n\<close> clamped to 15..35: below 15 it
  is 15, above 35 it is 35, in between it is \<open>n\<close>. Every display call of the run is given that
  size, and the request is never rejected: the run is the run of the clamped size.
\<close>

theorem image_size_clamped:
  "validateImageSize n = (if n < 15 then 15 else if n > 35 then 35 else n)
   \<and> 15 \<le> validateImageSize n \<and> validateImageSize n \<le> 35
   \<and> (\<forall>ev \<in> set (fst (searchCmd_Run e query searchType n)). \<forall>k.
         displaySize ev = Some k \<longrightarrow> k = validateImageSize n)
   \<and> searchCmd_Run e query searchType n = searchCmd_Run e query searchType (validateImageSize n)"
proof (intro conjI ballI allI impI)
  show "searchCmd_Run e query searchType n = searchCmd_Run e query searchType (validateImageSize n)"
    unfolding searchCmd_Run_def validate_idem ..
  show "validateImageSize n = (if n < 15 then 15 else if n > 35 then 35 else n)"
    by (rule validate_eq)
  show "15 \<le> validateImageSize n" by (simp add: validate_eq)
  show "validateImageSize n \<le> 35" by (simp add: validate_eq)
  fix ev k assume "ev \<in> set (fst (searchCmd_Run e query searchType n))" "displaySize ev = Some k"
  then show "k = validateImageSize n" by (rule run_sizes)
qed

lemma run_ok: "fst (searchCmd_Run env_ok ''song'' ''track'' 3) =
   [Print hideCursor, Print [NL], CallDisplayTrack track0 15, Print (ESC # ''[F'' @ ESC # ''[K'' @ [NL]), Print showCursor]"
  by (simp add: searchCmd_Run_def searchSpecific_def env_ok_def validateImageSize_def)

theorem image_size_clamped_witness:
  "CallDisplayTrack track0 15 \<in> set (fst (searchCmd_Run env_ok ''song'' ''track'' 3))
   \<and> displaySize (CallDisplayTrack track0 15) = Some 15
   \<and> validateImageSize 3 = 15"
proof -
  have mem: "CallDisplayTrack track0 15 \<in> set (fst (searchCmd_Run env_ok ''song'' ''track'' 3))"
    by (simp add: run_ok)
  have sz: "displaySize (CallDisplayTrack track0 15) = Some 15"
    by simp
  from image_size_clamped [of 3 env_ok "''song''" "''track''"]
  have "\<forall>ev \<in> set (fst (searchCmd_Run env_ok ''song'' ''track'' 3)). \<forall>k.
          displaySize ev = Some k \<longrightarrow> k = validateImageSize 3"
    by blast
  with mem sz have "15 = validateImageSize 3"
    by blast
  with mem sz show ?thesis
    by simp
qed


text \<open>On every path on which \<open>Run\<close> returns, the cursor was hidden and the restore is the last output.\<close>

lemma cursor_restored_on_return:
  "searchCmd_Run e q t n = (out, Returned) \<Longrightarrow> Print hideCursor \<in> set out
     \<and> (\<exists>pre. out = pre @ [Print showCursor])"
  by (auto simp: searchCmd_Run_def Let_def split: if_splits sum.splits prod.splits outcome.splits)


text \<open>
  C9. The cursor-restore sequence is emitted on every path that hid the cursor, error paths
  included. Evaluated here on the path where the type-specific search fails: the run hides
  the cursor, reports the failure and exits with status 1, and the restore sequence is never
  written, because \<open>os.Exit\<close> skips the deferred call.
\<close>

theorem cursor_left_hidden_on_search_failure:
  "searchCmd_Run env_down ''song'' ''track'' 20
     = ([Print hideCursor, Print [NL], Print (''Search failed: connection refused'' @ [NL])], Exited 1)
   \<and> Print showCursor \<notin> set (fst (searchCmd_Run env_down ''song'' ''track'' 20))"
  by (simp add: searchCmd_Run_def searchSpecific_def env_down_def env_ok_def validateImageSize_def)

section \<open>Properties of the image renderer\<close>
















lemma padPlaceholder_eq:
  "padPlaceholder lines = lines @ replicate (20 - length lines) (replicate 31 CHR '' '')"
proof (induction lines rule: padPlaceholder.induct)
  case (1 lines)
  show ?case
  proof (cases "length lines < 20")
    case True
    then have "20 - length lines = Suc (20 - Suc (length lines))" by simp
    with "1.IH"[OF True] True show ?thesis
      by (subst padPlaceholder.simps) (simp add: replicate_app_Cons_same)
  next
    case False
    then show ?thesis by (subst padPlaceholder.simps) simp
  qed
qed

lemma placeholderBox_length: "length placeholderBox = 8"
  by (simp add: placeholderBox_def)

lemma getPlaceholderLines_eq:
  "getPlaceholderLines r = placeholderBox @ replicate 12 (replicate 31 CHR '' '')"
  by (simp add: getPlaceholderLines_def padPlaceholder_eq placeholderBox_length)

lemma placeholderBox_widths: "map visibleWidth placeholderBox = replicate 8 34"
  by code_simp

lemma blank_width: "visibleWidth (replicate 31 CHR '' '') = 31"
  by code_simp


lemma placeholderBox_coloured: "line \<in> set placeholderBox \<Longrightarrow> ESC \<in> set line"
  by (auto simp: placeholderBox_def)

lemma placeholderBox_not_blank: "replicate 31 CHR '' '' \<notin> set placeholderBox"
proof
  assume "replicate 31 CHR '' '' \<in> set placeholderBox"
  then have "ESC \<in> set (replicate 31 CHR '' '')"
    by (rule placeholderBox_coloured)
  then show False
    by simp
qed

lemma downloadImage_fails:
  "(\<exists>err. http_Get l url = Inl err) \<or> (\<exists>body err. http_Get l url = Inr body \<and> image_Decode l body = Inl err)
     \<Longrightarrow> \<exists>err. downloadImage l url = Inl err"
  by (auto simp: downloadImage_def)

text \<open>
  C3. Whatever grid size the renderer \<open>r\<close> was made for: when the image URL is empty, or the
  download fails, or the decoding fails, the renderer returns the placeholder, which is the
  eight lines of the box followed by twelve blank lines, twenty lines in all.
\<close>

theorem placeholder_fixed_height:
  assumes "imageURL = []
    \<or> (\<exists>err. http_Get l imageURL = Inl err)
    \<or> (\<exists>body err. http_Get l imageURL = Inr body \<and> image_Decode l body = Inl err)"
  shows "RenderImageLines l r imageURL = placeholderBox @ replicate 12 (replicate 31 CHR '' '')
    \<and> length placeholderBox = 8
    \<and> replicate 31 CHR '' '' \<notin> set placeholderBox
    \<and> length (RenderImageLines l r imageURL) = 20"
proof -
  have "RenderImageLines l r imageURL = getPlaceholderLines r"
  proof (cases "imageURL = []")
    case True
    then show ?thesis by (simp add: RenderImageLines_def)
  next
    case False
    with assms downloadImage_fails[of l imageURL] obtain err where "downloadImage l imageURL = Inl err"
      by blast
    then show ?thesis by (simp add: RenderImageLines_def)
  qed
  then show ?thesis
    by (simp add: getPlaceholderLines_eq placeholderBox_length placeholderBox_not_blank)
qed

theorem placeholder_fixed_height_witness:
  "length (RenderImageLines lib0 (NewImageRenderer 35) []) = 20
   \<and> http_Get lib0 ''https://i.scdn.co/image/gone'' = Inl (Error ''no such host'')
   \<and> length (RenderImageLines lib0 (NewImageRenderer 15) ''https://i.scdn.co/image/gone'') = 20"
proof -
  have g: "http_Get lib0 ''https://i.scdn.co/image/gone'' = Inl (Error ''no such host'')"
    by (simp add: lib0_def)
  from placeholder_fixed_height [of "[]" lib0 "NewImageRenderer 35"]
  have a: "length (RenderImageLines lib0 (NewImageRenderer 35) []) = 20"
    by simp
  from g placeholder_fixed_height [of "''https://i.scdn.co/image/gone''" lib0 "NewImageRenderer 15"]
  have b: "length (RenderImageLines lib0 (NewImageRenderer 15) ''https://i.scdn.co/image/gone'') = 20"
    by blast
  from a g b show ?thesis by simp
qed

text \<open>
  C4. Every line that the renderer returns has the same rendered width. Evaluated here on the
  placeholder (the image URL is empty): the eight lines of the box are 34 characters wide, the
  twelve lines of padding are 31 characters wide.
\<close>

theorem placeholder_widths_differ:
  "map visibleWidth (RenderImageLines l r []) = replicate 8 34 @ replicate 12 31
   \<and> visibleWidth (RenderImageLines l r [] ! 0) = 34
   \<and> visibleWidth (RenderImageLines l r [] ! 8) = 31"
proof -
  let ?R = "RenderImageLines l r []"
  have w: "map visibleWidth ?R = replicate 8 34 @ replicate 12 31"
    by (simp add: RenderImageLines_def getPlaceholderLines_eq placeholderBox_widths blank_width)
  have len: "length ?R = 20"
    by (simp add: RenderImageLines_def getPlaceholderLines_eq placeholderBox_length)
  have "visibleWidth (?R ! 0) = map visibleWidth ?R ! 0"
    using len by simp
  also have "\<dots> = 34"
    unfolding w by (simp add: nth_append)
  finally have first: "visibleWidth (?R ! 0) = 34" .
  have "visibleWidth (?R ! 8) = map visibleWidth ?R ! 8"
    using len by simp
  also have "\<dots> = 31"
    unfolding w by (simp add: nth_append)
  finally have ninth: "visibleWidth (?R ! 8) = 31" .
  from w first ninth show ?thesis
    by simp
qed

section \<open>Properties of the side-by-side layout\<close>

lemma index_in_range: "0 \<le> i \<Longrightarrow> i < int (length xs) \<Longrightarrow> index xs i = Inr (xs ! nat i)"
  by (simp add: index_def)

lemma padInfoLines_eq:
  "padInfoLines infoLines t = infoLines @ replicate (nat (t - int (length infoLines))) []"
proof (induction infoLines t rule: padInfoLines.induct)
  case (1 infoLines t)
  show ?case
  proof (cases "int (length infoLines) < t")
    case True
    then have "nat (t - int (length infoLines)) = Suc (nat (t - int (length (infoLines @ [[]]))))"
      by simp
    with "1.IH"[OF True] True show ?thesis
      by (subst padInfoLines.simps) (simp add: replicate_app_Cons_same)
  next
    case False
    then show ?thesis by (subst padInfoLines.simps) simp
  qed
qed

lemma contentLine_eq:
  "0 \<le> i \<Longrightarrow> i < int (length infoLines) \<Longrightarrow>
     contentLine imageLines infoLines i = Inr (contentRow imageLines infoLines (nat i))"
  by (simp add: contentLine_def contentRow_def index_in_range nat_less_iff)

lemma mainContent_eq:
  "0 \<le> i \<Longrightarrow> t \<le> int (length infoLines) \<Longrightarrow>
     mainContent imageLines infoLines t i out
       = (out @ map (contentRow imageLines infoLines) [nat i..<nat t], None)"
proof (induction imageLines infoLines t i out rule: mainContent.induct)
  case (1 imageLines infoLines t i out)
  show ?case
  proof (cases "i < t")
    case True
    with "1.prems" have c: "contentLine imageLines infoLines i = Inr (contentRow imageLines infoLines (nat i))"
      by (simp add: contentLine_eq)
    from True "1.prems" have u: "[nat i..<nat t] = nat i # [nat (i + 1)..<nat t]"
      by (simp add: upt_conv_Cons nat_add_distrib)
    from "1.prems" have "0 \<le> i + 1" by simp
    from "1.IH"[OF True c this "1.prems"(2)] True c u show ?thesis
      by (subst mainContent.simps) simp
  next
    case False
    then show ?thesis by (subst mainContent.simps) simp
  qed
qed

lemma remainingImageLines_eq:
  "0 \<le> i \<Longrightarrow>
     remainingImageLines imageLines i out
       = (out @ map (imageRow imageLines) [nat i..<length imageLines], None)"
proof (induction imageLines i out rule: remainingImageLines.induct)
  case (1 imageLines i out)
  show ?case
  proof (cases "i < int (length imageLines)")
    case True
    with "1.prems" have c: "index imageLines i = Inr (imageLines ! nat i)"
      by (simp add: index_in_range)
    from True "1.prems" have u: "[nat i..<length imageLines] = nat i # [nat (i + 1)..<length imageLines]"
      by (simp add: upt_conv_Cons nat_add_distrib)
    from "1.prems" have "0 \<le> i + 1" by simp
    from "1.IH"[OF True c this] True c u show ?thesis
      by (subst remainingImageLines.simps) (simp add: imageRow_def)
  next
    case False
    then show ?thesis by (subst remainingImageLines.simps) simp
  qed
qed

lemma padInfoLines_length: "t \<le> int (length (padInfoLines infoLines t))"
  by (simp add: padInfoLines_eq)

lemma displaySideBySideWithLinks_eq:
  assumes "0 \<le> targetLinesOf imageLines infoLines"
  shows "displaySideBySideWithLinks l imageLines infoLines links
    = (map (contentRow imageLines (padInfoLines infoLines (targetLinesOf imageLines infoLines)))
         [0..<nat (targetLinesOf imageLines infoLines)]
       @ bottomRows l imageLines links (nat (targetLinesOf imageLines infoLines)), None)"
proof -
  let ?t = "targetLinesOf imageLines infoLines"
  let ?info = "padInfoLines infoLines ?t"
  have m: "mainContent imageLines ?info ?t 0 []
      = (map (contentRow imageLines ?info) [0..<nat ?t], None)"
    using mainContent_eq[of 0 ?t ?info imageLines "[]"] padInfoLines_length[of ?t infoLines]
    by simp
  show ?thesis
  proof (cases "links = []")
    case True
    with assms m show ?thesis
      by (simp add: displaySideBySideWithLinks_def Let_def remainingImageLines_eq bottomRows_def)
  next
    case False
    have s: "nat (?t + 1) = Suc (nat ?t)"
      using assms by simp
    have r: "remainingImageLines imageLines (?t + 1) out
        = (out @ map (imageRow imageLines) [Suc (nat ?t)..<length imageLines], None)" for out
      using remainingImageLines_eq[of "?t + 1" imageLines out] assms s by simp
    show ?thesis
    proof (cases "?t < int (length imageLines)")
      case True
      with assms have "index imageLines ?t = Inr (imageLines ! nat ?t)"
        by (simp add: index_in_range)
      with True False m r assms show ?thesis
        by (simp add: displaySideBySideWithLinks_def Let_def bottomRows_def nat_less_iff)
    next
      case F: False
      with False m r assms show ?thesis
        by (simp add: displaySideBySideWithLinks_def Let_def bottomRows_def nat_less_iff)
    qed
  qed
qed

lemma targetLinesOf_eq:
  "targetLinesOf imageLines infoLines = int (max (length imageLines) (length infoLines)) - 2"
  by (simp add: targetLinesOf_def Let_def max_def)


text \<open>
  C2. With \<open>H\<close> image lines, the info panel is padded with blank lines until it has \<open>H - 2\<close>
  lines (a panel that is already that long is left as it is), and the first \<open>H - 2\<close> lines
  printed, lines 0 to \<open>H - 3\<close>, are each the image line, the gap of three spaces and the
  info line of the padded panel.
\<close>

theorem side_by_side_main_rows:
  "padInfoLines infoLines (targetLinesOf imageLines infoLines)
     = infoLines @ replicate (length imageLines - 2 - length infoLines) []
   \<and> take (length imageLines - 2) (fst (displaySideBySideWithLinks l imageLines infoLines links))
     = map (\<lambda>i. imageLines ! i @ ''   ''
              @ (infoLines @ replicate (length imageLines - 2 - length infoLines) []) ! i @ [NL])
         [0..<length imageLines - 2]"
proof -
  let ?t = "targetLinesOf imageLines infoLines"
  let ?H = "length imageLines"
  let ?padded = "infoLines @ replicate (?H - 2 - length infoLines) []"
  have pad: "padInfoLines infoLines ?t = ?padded"
  proof -
    have "nat (?t - int (length infoLines)) = ?H - 2 - length infoLines"
      unfolding targetLinesOf_eq by arith
    then show ?thesis by (simp add: padInfoLines_eq)
  qed
  have rows: "take (?H - 2) (fst (displaySideBySideWithLinks l imageLines infoLines links))
     = map (\<lambda>i. imageLines ! i @ ''   '' @ ?padded ! i @ [NL]) [0..<?H - 2]"
  proof (cases "2 \<le> ?H")
    case False
    then show ?thesis by simp
  next
    case True
    then have t0: "0 \<le> ?t" by (simp add: targetLinesOf_eq)
    from True have le: "?H - 2 \<le> nat ?t" by (simp add: targetLinesOf_eq)
    have "take (?H - 2) (fst (displaySideBySideWithLinks l imageLines infoLines links))
        = map (contentRow imageLines ?padded) (take (?H - 2) [0..<nat ?t])"
      using le by (simp add: displaySideBySideWithLinks_eq[OF t0] pad take_map)
    also have "take (?H - 2) [0..<nat ?t] = [0..<?H - 2]"
      using le by (simp add: min_def)
    also have "map (contentRow imageLines ?padded) [0..<?H - 2]
        = map (\<lambda>i. imageLines ! i @ ''   '' @ ?padded ! i @ [NL]) [0..<?H - 2]"
      by (rule map_cong) (auto simp: contentRow_def)
    finally show ?thesis .
  qed
  from pad rows show ?thesis by simp
qed


text \<open>
  C10. When the info panel has at least as many lines as the image, say \<open>N\<close>, the target
  line count is the larger of the two lengths minus 2, that is \<open>N - 2\<close>; the first \<open>N - 2\<close>
  info lines are printed, each in its content row, and nothing else of the panel is: what
  follows the content rows is made of the image lines and the links only, and the output is
  the same whatever the last two info lines are.
\<close>

theorem last_two_info_lines_dropped:
  assumes "length imageLines \<le> length infoLines"
  shows "targetLinesOf imageLines infoLines
       = int (max (length imageLines) (length infoLines)) - 2
    \<and> targetLinesOf imageLines infoLines = int (length infoLines) - 2
    \<and> take (length infoLines - 2) (fst (displaySideBySideWithLinks l imageLines infoLines links))
       = map (contentRow imageLines infoLines) [0..<length infoLines - 2]
    \<and> (2 \<le> length infoLines \<longrightarrow>
         displaySideBySideWithLinks l imageLines infoLines links
           = (map (contentRow imageLines infoLines) [0..<length infoLines - 2]
                @ bottomRows l imageLines links (length infoLines - 2), None))
    \<and> (\<forall>xs a b a' b'. infoLines = xs @ [a, b] \<longrightarrow>
         displaySideBySideWithLinks l imageLines (xs @ [a, b]) links
           = displaySideBySideWithLinks l imageLines (xs @ [a', b']) links)"
proof -
  let ?N = "length infoLines"
  have full: "displaySideBySideWithLinks l imageLines info links
      = (map (contentRow imageLines info) [0..<length info - 2]
           @ bottomRows l imageLines links (length info - 2), None)"
    if "length imageLines \<le> length info" and "2 \<le> length info" for info
  proof -
    from that have t: "targetLinesOf imageLines info = int (length info) - 2"
      by (simp add: targetLinesOf_eq max_def)
    with that have t0: "0 \<le> targetLinesOf imageLines info" and n: "nat (targetLinesOf imageLines info) = length info - 2"
      by simp_all
    have "padInfoLines info (targetLinesOf imageLines info) = info"
      by (simp add: padInfoLines_eq t)
    with displaySideBySideWithLinks_eq[OF t0, of l links] n show ?thesis
      by simp
  qed
  have first: "take (?N - 2) (fst (displaySideBySideWithLinks l imageLines infoLines links))
       = map (contentRow imageLines infoLines) [0..<?N - 2]"
  proof (cases "2 \<le> ?N")
    case True
    from full[OF assms True] show ?thesis by simp
  next
    case False
    then show ?thesis by simp
  qed
  have indep: "displaySideBySideWithLinks l imageLines (xs @ [a, b]) links
           = displaySideBySideWithLinks l imageLines (xs @ [a', b']) links"
    if "infoLines = xs @ [a, b]" for xs a b a' b'
  proof -
    from that assms have le: "length imageLines \<le> length xs + 2" by simp
    have rows: "map (contentRow imageLines (xs @ [c, d])) [0..<length xs]
        = map (contentRow imageLines xs) [0..<length xs]" for c d
      by (rule map_cong) (auto simp: contentRow_def nth_append)
    have "displaySideBySideWithLinks l imageLines (xs @ [c, d]) links
        = (map (contentRow imageLines xs) [0..<length xs]
             @ bottomRows l imageLines links (length xs), None)" for c d
      using full[of "xs @ [c, d]"] le rows[of c d] by simp
    then show ?thesis by simp
  qed
  have target: "targetLinesOf imageLines infoLines = int (length infoLines) - 2"
    using assms by (simp add: targetLinesOf_eq max_def)
  from first full[OF assms] indep targetLinesOf_eq[of imageLines infoLines] target
  show ?thesis by blast
qed

lemma sample_output:
  "displaySideBySideWithLinks lib0 image3 info6 []
     = ([''AAA   one'' @ [NL], ''BBB   two'' @ [NL], ''CCC   three'' @ [NL],
         replicate 46 CHR '' '' @ ''   four'' @ [NL]], None)"
  by code_simp

theorem last_two_info_lines_dropped_witness:
  "length image3 \<le> length info6
   \<and> displaySideBySideWithLinks lib0 image3 info6 []
       = displaySideBySideWithLinks lib0 image3 [''one'', ''two'', ''three'', ''four'', ''FIVE'', ''SIX''] []
   \<and> take 4 (fst (displaySideBySideWithLinks lib0 image3 info6 []))
       = [''AAA   one'' @ [NL], ''BBB   two'' @ [NL], ''CCC   three'' @ [NL],
          replicate 46 CHR '' '' @ ''   four'' @ [NL]]"
proof (intro conjI)
  show h: "length image3 \<le> length info6"
    by (simp add: image3_def info6_def)
  have i: "info6 = [''one'', ''two'', ''three'', ''four''] @ [''five'', ''six'']"
    by (simp add: info6_def)
  from last_two_info_lines_dropped [OF h, of lib0 "[]"]
  have "\<forall>xs a b a' b'. info6 = xs @ [a, b] \<longrightarrow>
      displaySideBySideWithLinks lib0 image3 (xs @ [a, b]) []
        = displaySideBySideWithLinks lib0 image3 (xs @ [a', b']) []"
    by blast
  with i have "displaySideBySideWithLinks lib0 image3 ([''one'', ''two'', ''three'', ''four''] @ [''five'', ''six'']) []
      = displaySideBySideWithLinks lib0 image3 ([''one'', ''two'', ''three'', ''four''] @ [''FIVE'', ''SIX'']) []"
    by blast
  then show "displaySideBySideWithLinks lib0 image3 info6 []
      = displaySideBySideWithLinks lib0 image3 [''one'', ''two'', ''three'', ''four'', ''FIVE'', ''SIX''] []"
    by (simp add: info6_def)
  show "take 4 (fst (displaySideBySideWithLinks lib0 image3 info6 []))
       = [''AAA   one'' @ [NL], ''BBB   two'' @ [NL], ''CCC   three'' @ [NL],
          replicate 46 CHR '' '' @ ''   four'' @ [NL]]"
    by (simp add: sample_output)
qed

section \<open>Properties of the info panel\<close>


















lemma digit_char:
  assumes "isDigit c"
  shows "digitValue c < 10 \<and> ''0123456789'' ! digitValue c = c"
proof -
  define n where "n = (of_char c :: nat)"
  have c: "c = char_of n"
    by (simp add: n_def)
  have v: "digitValue c = n - 48"
    by (simp add: digitValue_def n_def)
  have k: "char_of (48::nat) = CHR ''0''" "char_of (49::nat) = CHR ''1''"
    "char_of (50::nat) = CHR ''2''" "char_of (51::nat) = CHR ''3''"
    "char_of (52::nat) = CHR ''4''" "char_of (53::nat) = CHR ''5''"
    "char_of (54::nat) = CHR ''6''" "char_of (55::nat) = CHR ''7''"
    "char_of (56::nat) = CHR ''8''" "char_of (57::nat) = CHR ''9''"
    by code_simp+
  from assms have "n = 48 \<or> n = 49 \<or> n = 50 \<or> n = 51 \<or> n = 52 \<or> n = 53 \<or> n = 54
      \<or> n = 55 \<or> n = 56 \<or> n = 57"
    unfolding isDigit_def n_def by arith
  then show ?thesis
    unfolding v by (elim disjE) (simp_all add: c k)
qed

lemma itoa_small: "n < 10 \<Longrightarrow> itoa n = [''0123456789'' ! n]"
  by (subst itoa.simps) simp

lemma itoa_step: "0 < q \<Longrightarrow> r < 10 \<Longrightarrow> itoa (10 * q + r) = itoa q @ [''0123456789'' ! r]"
  by (subst itoa.simps) simp

lemma Format_year_digits:
  assumes "isDigit a" "isDigit b" "isDigit c" "isDigit d"
  shows "Format_year (digitValue a * 1000 + digitValue b * 100 + digitValue c * 10 + digitValue d)
    = [a, b, c, d]"
proof -
  let ?A = "digitValue a" and ?B = "digitValue b" and ?C = "digitValue c" and ?D = "digitValue d"
  note da = digit_char[OF assms(1)] and db = digit_char[OF assms(2)]
    and dc = digit_char[OF assms(3)] and dd = digit_char[OF assms(4)]
  have y: "?A * 1000 + ?B * 100 + ?C * 10 + ?D = 10 * (10 * (10 * ?A + ?B) + ?C) + ?D"
    by simp
  have zero: "digitValue x = 0 \<Longrightarrow> isDigit x \<Longrightarrow> x = CHR ''0''" for x
    using digit_char[of x] by simp
  have one: "itoa ?A = [a]" "itoa ?B = [b]" "itoa ?C = [c]" "itoa ?D = [d]"
    using da db dc dd by (simp_all add: itoa_small)
  have step: "0 < q \<Longrightarrow> itoa (10 * q + ?B) = itoa q @ [b]"
    "0 < q \<Longrightarrow> itoa (10 * q + ?C) = itoa q @ [c]"
    "0 < q \<Longrightarrow> itoa (10 * q + ?D) = itoa q @ [d]" for q
    using db dc dd by (simp_all add: itoa_step)
  let ?q1 = "10 * ?A + ?B" and ?q2 = "10 * (10 * ?A + ?B) + ?C"
  show ?thesis
  proof (cases "?A = 0")
    case False
    then have "itoa ?q1 = itoa ?A @ [b]" "itoa ?q2 = itoa ?q1 @ [c]" "itoa (10 * ?q2 + ?D) = itoa ?q2 @ [d]"
      by (simp_all only: step neq0_conv add_gr_0 mult_pos_pos zero_less_numeral simp_thms)
    then have "itoa (10 * ?q2 + ?D) = [a, b, c, d]"
      by (simp only: one append.simps)
    then show ?thesis
      unfolding y Format_year_def by simp
  next
    case A: True
    with assms have a: "a = CHR ''0''" by (simp add: zero)
    have q1: "?q1 = ?B" using A by simp
    show ?thesis
    proof (cases "?B = 0")
      case False
      then have "itoa (10 * ?B + ?C) = itoa ?B @ [c]"
        "itoa (10 * (10 * ?B + ?C) + ?D) = itoa (10 * ?B + ?C) @ [d]"
        by (simp_all only: step neq0_conv add_gr_0 mult_pos_pos zero_less_numeral simp_thms)
      then have "itoa (10 * ?q2 + ?D) = [b, c, d]"
        unfolding q1 by (simp only: one append.simps)
      then show ?thesis
        unfolding y Format_year_def by (simp add: a)
    next
      case B: True
      with assms have b: "b = CHR ''0''" by (simp add: zero)
      have q2: "?q2 = ?C" using A B by simp
      show ?thesis
      proof (cases "?C = 0")
        case False
        then have "itoa (10 * ?C + ?D) = itoa ?C @ [d]"
          by (simp_all only: step neq0_conv simp_thms)
        then have "itoa (10 * ?q2 + ?D) = [c, d]"
          unfolding q2 by (simp only: one append.simps)
        then show ?thesis
          unfolding y Format_year_def by (simp add: a b numeral_2_eq_2)
      next
        case C: True
        with assms have c: "c = CHR ''0''" by (simp add: zero)
        have "10 * ?q2 + ?D = ?D" using A B C by simp
        then have "itoa (10 * ?q2 + ?D) = [d]"
          by (simp only: one)
        then show ?thesis
          unfolding y Format_year_def by (simp add: a b c numeral_3_eq_3)
      qed
    qed
  qed
qed

lemma parseLongYear_Some:
  assumes "parseLongYear v = Some (year, rest)"
  shows "\<exists>a b c d. v = a # b # c # d # rest \<and> isDigit a \<and> isDigit b \<and> isDigit c \<and> isDigit d
      \<and> year = digitValue a * 1000 + digitValue b * 100 + digitValue c * 10 + digitValue d"
proof -
  from assms have len: "4 \<le> length v"
    by (simp add: parseLongYear_def split: if_splits)
  then have "\<exists>a b c d r. v = a # b # c # d # r"
    by (auto simp: eval_nat_numeral Suc_le_length_iff)
  then obtain a b c d r where v: "v = a # b # c # d # r"
    by blast
  with assms show ?thesis
    by (auto simp: parseLongYear_def split: if_splits)
qed

lemma time_Parse_year_same:
  assumes "time_Parse_year dateStr = Some year"
  shows "Format_year year = dateStr"
proof -
  from assms obtain rest where p: "parseLongYear dateStr = Some (year, rest)" and r: "rest = []"
    by (auto simp: time_Parse_year_def split: option.splits if_splits)
  from parseLongYear_Some[OF p] r obtain a b c d where
    v: "dateStr = [a, b, c, d]" and d: "isDigit a" "isDigit b" "isDigit c" "isDigit d"
    and y: "year = digitValue a * 1000 + digitValue b * 100 + digitValue c * 10 + digitValue d"
    by blast
  from d show ?thesis
    unfolding y v by (rule Format_year_digits)
qed

lemma time_Parse_date_range:
  assumes "time_Parse_date dateStr = Some (year, month, day)"
  shows "dateStr \<noteq> [] \<and> 1 \<le> month \<and> month \<le> 12 \<and> 1 \<le> day \<and> day \<le> 31"
proof -
  from assms have "dateStr \<noteq> []"
    by (auto simp: time_Parse_date_def parseLongYear_def)
  moreover from assms have "1 \<le> month \<and> month \<le> 12 \<and> 1 \<le> day \<and> day \<le> daysIn month year"
    by (auto simp: time_Parse_date_def split: option.splits if_splits)
  moreover have "daysIn month year \<le> 31"
    by (simp add: daysIn_def)
  ultimately show ?thesis
    by simp
qed

text \<open>
  C5. The empty string gives "N/A". A string that parses as year-month-day gives the day with
  its suffix, the short month name and the year, where days 11 to 13 take "th" and any other
  day takes "st", "nd" or "rd" when its last digit is 1, 2 or 3, and "th" otherwise. A string
  that parses as a year only gives that year, which is the string itself. Any other string
  is returned as it is. The four examples of the specification follow.
\<close>

theorem ordinal_date_format:
  "formatOrdinalDate [] = ''N/A''
   \<and> (\<forall>year month day. time_Parse_date dateStr = Some (year, month, day) \<longrightarrow>
        1 \<le> month \<and> month \<le> 12 \<and> 1 \<le> day \<and> day \<le> 31
        \<and> formatOrdinalDate dateStr
            = Sprintf_d (int day)
              @ (if day \<in> {11, 12, 13} then ''th''
                 else if day mod 10 = 1 then ''st''
                 else if day mod 10 = 2 then ''nd''
                 else if day mod 10 = 3 then ''rd''
                 else ''th'')
              @ '' '' @ Format_Jan month @ '' '' @ Sprintf_d (int year))
   \<and> (\<forall>year. time_Parse_date dateStr = None \<and> time_Parse_year dateStr = Some year \<longrightarrow>
        formatOrdinalDate dateStr = Format_year year \<and> Format_year year = dateStr)
   \<and> (dateStr \<noteq> [] \<and> time_Parse_date dateStr = None \<and> time_Parse_year dateStr = None \<longrightarrow>
        formatOrdinalDate dateStr = dateStr)
   \<and> formatOrdinalDate ''2020-01-01'' = ''1st Jan 2020''
   \<and> formatOrdinalDate ''2020-01-11'' = ''11th Jan 2020''
   \<and> formatOrdinalDate ''2020-01-22'' = ''22nd Jan 2020''
   \<and> formatOrdinalDate ''2020'' = ''2020''"
proof (intro conjI allI impI)
  show "formatOrdinalDate [] = ''N/A''"
    by (simp add: formatOrdinalDate_def)
next
  fix year month day
  assume p: "time_Parse_date dateStr = Some (year, month, day)"
  note r = time_Parse_date_range[OF p]
  from r show "1 \<le> month" "month \<le> 12" "1 \<le> day" "day \<le> 31"
    by simp_all
  have "(11 \<le> day \<and> day \<le> 13) = (day \<in> {11, 12, 13})"
    by auto
  with p r show "formatOrdinalDate dateStr
      = Sprintf_d (int day)
        @ (if day \<in> {11, 12, 13} then ''th''
           else if day mod 10 = 1 then ''st''
           else if day mod 10 = 2 then ''nd''
           else if day mod 10 = 3 then ''rd''
           else ''th'')
        @ '' '' @ Format_Jan month @ '' '' @ Sprintf_d (int year)"
    by (simp add: formatOrdinalDate_def Let_def)
next
  fix year
  assume a: "time_Parse_date dateStr = None \<and> time_Parse_year dateStr = Some year"
  then have "dateStr \<noteq> []"
    by (auto simp: time_Parse_year_def parseLongYear_def)
  with a show "formatOrdinalDate dateStr = Format_year year"
    by (simp add: formatOrdinalDate_def)
  from a show "Format_year year = dateStr"
    by (simp add: time_Parse_year_same)
next
  assume "dateStr \<noteq> [] \<and> time_Parse_date dateStr = None \<and> time_Parse_year dateStr = None"
  then show "formatOrdinalDate dateStr = dateStr"
    by (simp add: formatOrdinalDate_def)
next
  show "formatOrdinalDate ''2020-01-01'' = ''1st Jan 2020''"
    by code_simp
  show "formatOrdinalDate ''2020-01-11'' = ''11th Jan 2020''"
    by code_simp
  show "formatOrdinalDate ''2020-01-22'' = ''22nd Jan 2020''"
    by code_simp
  show "formatOrdinalDate ''2020'' = ''2020''"
    by code_simp
qed

lemma sample_parses:
  "time_Parse_date ''2020-03-03'' = Some (2020, 3, 3)"
  "time_Parse_date ''1999'' = None" "time_Parse_year ''1999'' = Some 1999"
  "time_Parse_date ''soon'' = None" "time_Parse_year ''soon'' = None"
  by code_simp+

theorem ordinal_date_format_witness:
  "time_Parse_date ''2020-03-03'' = Some (2020, 3, 3)
   \<and> formatOrdinalDate ''2020-03-03'' = ''3rd Mar 2020''
   \<and> time_Parse_date ''1999'' = None \<and> time_Parse_year ''1999'' = Some 1999
   \<and> formatOrdinalDate ''1999'' = ''1999''
   \<and> time_Parse_date ''soon'' = None \<and> time_Parse_year ''soon'' = None
   \<and> formatOrdinalDate ''soon'' = ''soon''"
proof -
  from ordinal_date_format [of "''2020-03-03''"] sample_parses(1)
  have "formatOrdinalDate ''2020-03-03''
      = Sprintf_d (int 3)
        @ (if (3::nat) \<in> {11, 12, 13} then ''th''
           else if (3::nat) mod 10 = 1 then ''st''
           else if (3::nat) mod 10 = 2 then ''nd''
           else if (3::nat) mod 10 = 3 then ''rd''
           else ''th'')
        @ '' '' @ Format_Jan 3 @ '' '' @ Sprintf_d (int 2020)"
    by blast
  also have "\<dots> = ''3rd Mar 2020''"
    by code_simp
  finally have a: "formatOrdinalDate ''2020-03-03'' = ''3rd Mar 2020''" .
  from ordinal_date_format [of "''1999''"] sample_parses(2,3)
  have "formatOrdinalDate ''1999'' = Format_year 1999 \<and> Format_year 1999 = ''1999''"
    by blast
  then have b: "formatOrdinalDate ''1999'' = ''1999''"
    by simp
  from ordinal_date_format [of "''soon''"] sample_parses(4,5)
  have c: "formatOrdinalDate ''soon'' = ''soon''"
    by simp
  from a b c sample_parses show ?thesis
    by simp
qed

end
